theory Spec2Isabelle
  imports Complex_Main
begin

section \<open>Python values used by the bot\<close>

text \<open>
  The exceptions that the modelled code paths can raise. \<open>TelegramError\<close> stands for any
  error raised by a call to the Telegram API (\<open>send_message\<close>).
\<close>

datatype pyexc =
    IndexError
  | KeyError
  | ValueError
  | TypeError
  | ZeroDivisionError
  | AttributeError
  | TelegramError

text \<open>
  Numbers. Python's \<open>int\<close> and \<open>float\<close> values are embedded in one type: a finite value is
  an exact rational, and the three special floats are separate constructors. The rounding
  and the range of binary64 are not modelled (so no \<open>OverflowError\<close> either); truthiness
  and comparison, which are what the alert check uses, are exact in Python as well.
\<close>

datatype pynum = Fin rat | PosInf | NegInf | NaN

text \<open>Truthiness of a number: zero is false, everything else (also nan) is true.\<close>

fun num_truthy :: "pynum \<Rightarrow> bool" where
  "num_truthy (Fin q) = (q \<noteq> 0)"
| "num_truthy _ = True"

text \<open>\<open>a >= b\<close> on numbers: false as soon as one side is nan.\<close>

fun num_ge :: "pynum \<Rightarrow> pynum \<Rightarrow> bool" where
  "num_ge NaN _ = False"
| "num_ge _ NaN = False"
| "num_ge PosInf _ = True"
| "num_ge _ NegInf = True"
| "num_ge NegInf _ = False"
| "num_ge _ PosInf = False"
| "num_ge (Fin a) (Fin b) = (a \<ge> b)"

text \<open>
  True division \<open>a / b\<close> on numbers. A zero divisor raises \<open>ZeroDivisionError\<close> whatever
  the dividend is.
\<close>

fun num_truediv :: "pynum \<Rightarrow> pynum \<Rightarrow> pyexc + pynum" where
  "num_truediv a (Fin b) =
     (if b = 0 then Inl ZeroDivisionError
      else case a of
        Fin x \<Rightarrow> Inr (Fin (x / b))
      | PosInf \<Rightarrow> Inr (if b > 0 then PosInf else NegInf)
      | NegInf \<Rightarrow> Inr (if b > 0 then NegInf else PosInf)
      | NaN \<Rightarrow> Inr NaN)"
| "num_truediv a NaN = Inr NaN"
| "num_truediv (Fin x) _ = Inr (Fin 0)"
| "num_truediv _ _ = Inr NaN"

text \<open>
  The values a decoded JSON document is made of. A dict is given by its items, one for
  each key; \<open>dict_get\<close> is \<open>d.get(key, default)\<close>.
\<close>

datatype pyval =
    PNone
  | PBool bool
  | PNum pynum
  | PStr string
  | PList "pyval list"
  | PDict "(string \<times> pyval) list"

definition dict_get :: "(string \<times> 'v) list \<Rightarrow> string \<Rightarrow> 'v \<Rightarrow> 'v" where
  "dict_get d k dflt = (case map_of d k of None \<Rightarrow> dflt | Some v \<Rightarrow> v)"

text \<open>The numeric reading of a value: \<open>bool\<close> is a subclass of \<open>int\<close>.\<close>

fun as_num :: "pyval \<Rightarrow> pynum option" where
  "as_num (PNum n) = Some n"
| "as_num (PBool b) = Some (Fin (if b then 1 else 0))"
| "as_num _ = None"

text \<open>\<open>bool(v)\<close>: the truth value Python's \<open>if v\<close> and \<open>v and ...\<close> test.\<close>

fun truthy :: "pyval \<Rightarrow> bool" where
  "truthy PNone = False"
| "truthy (PBool b) = b"
| "truthy (PNum n) = num_truthy n"
| "truthy (PStr s) = (s \<noteq> [])"
| "truthy (PList xs) = (xs \<noteq> [])"
| "truthy (PDict d) = (d \<noteq> [])"

text \<open>\<open>a / b\<close> on values: both operands must be numbers, otherwise \<open>TypeError\<close>.\<close>

definition truediv :: "pyval \<Rightarrow> pyval \<Rightarrow> pyexc + pyval" where
  "truediv a b =
     (case (as_num a, as_num b) of
        (Some x, Some y) \<Rightarrow>
          (case num_truediv x y of Inl e \<Rightarrow> Inl e | Inr q \<Rightarrow> Inr (PNum q))
      | _ \<Rightarrow> Inl TypeError)"

text \<open>
  \<open>format(v, ".2f")\<close>: the number that is rendered with two decimals. A string raises
  \<open>ValueError\<close>, any other non-number \<open>TypeError\<close>. The rendering itself is not modelled:
  a message carries the number.
\<close>

definition format_2f :: "pyval \<Rightarrow> pyexc + pynum" where
  "format_2f v =
     (case as_num v of
        Some x \<Rightarrow> Inr x
      | None \<Rightarrow> (case v of PStr s \<Rightarrow> Inl ValueError | _ \<Rightarrow> Inl TypeError))"

section \<open>String operations\<close>

text \<open>
  Strings are modelled over ASCII. \<open>str_split\<close> is \<open>str.split()\<close> without arguments: it
  cuts at runs of whitespace and returns no empty word. \<open>str_upper\<close> is \<open>str.upper()\<close>.
\<close>

definition is_space :: "char \<Rightarrow> bool" where
  "is_space c = ((of_char c :: nat) \<in> {9, 10, 11, 12, 13, 28, 29, 30, 31, 32})"

fun split_ws :: "string \<Rightarrow> string \<Rightarrow> string list" where
  "split_ws w [] = (if w = [] then [] else [w])"
| "split_ws w (c # cs) =
     (if is_space c then (if w = [] then split_ws [] cs else w # split_ws [] cs)
      else split_ws (w @ [c]) cs)"

definition str_split :: "string \<Rightarrow> string list" where
  "str_split s = split_ws [] s"

definition upper_char :: "char \<Rightarrow> char" where
  "upper_char c =
     (let n = (of_char c :: nat) in if 97 \<le> n \<and> n \<le> 122 then char_of (n - 32) else c)"

definition lower_char :: "char \<Rightarrow> char" where
  "lower_char c =
     (let n = (of_char c :: nat) in if 65 \<le> n \<and> n \<le> 90 then char_of (n + 32) else c)"

definition str_upper :: "string \<Rightarrow> string" where
  "str_upper s = map upper_char s"

definition str_lower :: "string \<Rightarrow> string" where
  "str_lower s = map lower_char s"

text \<open>\<open>xs[i]\<close> for a non-negative index: out of range raises \<open>IndexError\<close>.\<close>

definition index :: "'a list \<Rightarrow> nat \<Rightarrow> pyexc + 'a" where
  "index xs i = (if i < length xs then Inr (xs ! i) else Inl IndexError)"

section \<open>The builtin float\<close>

text \<open>
  \<open>py_float\<close> is \<open>float(s)\<close> on a word without whitespace: an optional sign, then
  \<open>inf\<close>, \<open>infinity\<close> or \<open>nan\<close> in any case, or a decimal literal with an optional
  fraction and an optional exponent. An underscore may stand between two digits.
  Anything else raises \<open>ValueError\<close>.
\<close>

definition is_digit :: "char \<Rightarrow> bool" where
  "is_digit c = (48 \<le> (of_char c :: nat) \<and> (of_char c :: nat) \<le> 57)"

definition digits_to_nat :: "string \<Rightarrow> nat" where
  "digits_to_nat ds = foldl (\<lambda>n c. 10 * n + ((of_char c :: nat) - 48)) 0 ds"

fun drop_underscores :: "char option \<Rightarrow> string \<Rightarrow> string" where
  "drop_underscores p [] = []"
| "drop_underscores p (c # cs) =
     (if c = CHR ''_'' \<and> (case p of None \<Rightarrow> False | Some d \<Rightarrow> is_digit d)
         \<and> (case cs of [] \<Rightarrow> False | d # _ \<Rightarrow> is_digit d)
      then drop_underscores (Some c) cs
      else c # drop_underscores (Some c) cs)"

definition parse_exponent :: "string \<Rightarrow> int option" where
  "parse_exponent s =
     (let (neg, ds) = (case s of
                         c # r \<Rightarrow> if c = CHR ''-'' then (True, r)
                                  else if c = CHR ''+'' then (False, r) else (False, s)
                       | [] \<Rightarrow> (False, s))
      in if ds \<noteq> [] \<and> list_all is_digit ds
         then Some (if neg then - int (digits_to_nat ds) else int (digits_to_nat ds))
         else None)"

definition scale10 :: "rat \<Rightarrow> int \<Rightarrow> rat" where
  "scale10 q e = (if e \<ge> 0 then q * 10 ^ nat e else q / 10 ^ nat (- e))"

definition parse_decimal :: "string \<Rightarrow> rat option" where
  "parse_decimal s =
     (let mant = takeWhile (\<lambda>c. c \<noteq> CHR ''e'') s;
          rest = dropWhile (\<lambda>c. c \<noteq> CHR ''e'') s;
          ip = takeWhile (\<lambda>c. c \<noteq> CHR ''.'') mant;
          fp = (case dropWhile (\<lambda>c. c \<noteq> CHR ''.'') mant of [] \<Rightarrow> [] | _ # r \<Rightarrow> r)
      in if ip @ fp = [] \<or> \<not> list_all is_digit (ip @ fp) then None
         else case (case rest of [] \<Rightarrow> Some 0 | _ # ex \<Rightarrow> parse_exponent ex) of
                None \<Rightarrow> None
              | Some e \<Rightarrow>
                  Some (scale10 (of_nat (digits_to_nat (ip @ fp)) / 10 ^ length fp) e))"

definition py_float :: "string \<Rightarrow> pyexc + pynum" where
  "py_float s =
     (let t = drop_underscores None s;
          (neg, body) = (case t of
                           c # r \<Rightarrow> if c = CHR ''-'' then (True, r)
                                    else if c = CHR ''+'' then (False, r) else (False, t)
                         | [] \<Rightarrow> (False, t));
          low = str_lower body
      in if low = ''inf'' \<or> low = ''infinity'' then Inr (if neg then NegInf else PosInf)
         else if low = ''nan'' then Inr NaN
         else case parse_decimal low of
                None \<Rightarrow> Inl ValueError
              | Some q \<Rightarrow> Inr (Fin (if neg then - q else q)))"

section \<open>Fetching the exchange rates\<close>

text \<open>
  \<open>fetch_exchange_rates\<close> is lines 18 to 32 of \<open>telbotScript_v3.py\<close>.
  What its HTTP request can come back with: \<open>requests.get\<close>
  raises a \<open>RequestException\<close>, or there is a response with a status code and a body that
  decodes as JSON or does not. \<open>raise_for_status\<close> raises \<open>HTTPError\<close> for a 4xx or 5xx
  status and \<open>response.json()\<close> raises \<open>JSONDecodeError\<close> for a body that is not JSON;
  both are subclasses of \<open>RequestException\<close>.
\<close>

datatype body = NotJson | Json pyval

datatype http_result = RequestFailed | Response nat body

type_synonym snapshot = "(string \<times> pyval) list"

definition raise_for_status :: "nat \<Rightarrow> bool" where
  "raise_for_status status = (400 \<le> status \<and> status < 600)"

text \<open>
  The result is \<open>Inl e\<close> when the exception \<open>e\<close> leaves the function, \<open>Inr None\<close> when
  the \<open>except\<close> clause returns \<open>None\<close>, and \<open>Inr (Some d)\<close> for the returned dict.
  The dict display evaluates its values in order, so the first failing division decides.
\<close>

definition fetch_exchange_rates :: "http_result \<Rightarrow> pyexc + snapshot option" where
  "fetch_exchange_rates h =
     (case h of
        RequestFailed \<Rightarrow> Inr None
      | Response status b \<Rightarrow>
          if raise_for_status status then Inr None
          else (case b of
             NotJson \<Rightarrow> Inr None
           | Json data \<Rightarrow>
              (case data of
                 PDict d \<Rightarrow>
                   (case dict_get d ''rates'' (PDict []) of
                      PDict rates \<Rightarrow>
                        (let ngn = dict_get rates ''NGN'' (PStr ''N/A'') in
                         case truediv ngn (dict_get rates ''GBP'' (PNum (Fin 1))) of
                           Inl e \<Rightarrow> Inl e
                         | Inr gbp_ngn \<Rightarrow>
                            (case truediv ngn (dict_get rates ''EUR'' (PNum (Fin 1))) of
                               Inl e \<Rightarrow> Inl e
                             | Inr eur_ngn \<Rightarrow>
                                 Inr (Some [(''USD/NGN'', ngn),
                                            (''GBP/NGN'', gbp_ngn),
                                            (''EUR/NGN'', eur_ngn)])))
                    | _ \<Rightarrow> Inl AttributeError)
               | _ \<Rightarrow> Inl AttributeError)))"

section \<open>Handler state and replies\<close>

text \<open>
  An alert is the tuple \<open>(currency_pair, threshold_rate)\<close>. A job of the job queue keeps
  the arguments of \<open>run_repeating\<close>: the interval, the first delay, and \<open>data\<close> with the
  chat id and the alert tuple as it was when the job was created.
\<close>

type_synonym alert_data = "string \<times> pynum"

record job =
  interval :: nat
  first_delay :: nat
  user_id :: int
  job_alert :: alert_data

text \<open>
  The part of \<open>CallbackContext\<close> the handlers use: \<open>user_data\<close>, the dict of the user, and
  \<open>job_queue\<close>, which is \<open>None\<close> when the application was built without one, and
  otherwise holds the jobs that are scheduled.
\<close>

record callback_context =
  user_data :: "string \<rightharpoonup> alert_data"
  job_queue :: "job list option"

text \<open>
  The text a handler answers with, by its template and the values put in; \<open>Unhandled e\<close>
  is an exception that leaves the handler. The answers of the handlers are taken to
  arrive; a failing delivery is modelled for the notification of the job callback only.
\<close>

datatype reply =
    AlertSet string pynum
  | Usage
  | RatesMessage pynum pynum pynum
  | FetchFailed
  | AlertFormatHelp
  | MonitoringStarted
  | JobQueueUnavailable
  | NoAlertSet
  | NoReply
  | Unhandled pyexc

section \<open>The /alert command\<close>

text \<open>
  \<open>alert\<close> is lines 105 to 117: the handler of \<open>/alert\<close> for the message text and the
  context of the user. The \<open>except\<close> clause catches \<open>IndexError\<close> and \<open>ValueError\<close>.
\<close>

definition alert_except :: "pyexc \<Rightarrow> reply" where
  "alert_except e = (if e = IndexError \<or> e = ValueError then Usage else Unhandled e)"

definition alert :: "string \<Rightarrow> callback_context \<Rightarrow> callback_context \<times> reply" where
  "alert text ctx =
     (let user_message = str_split text in
      case index user_message 1 of
        Inl e \<Rightarrow> (ctx, alert_except e)
      | Inr w1 \<Rightarrow>
          (let currency_pair = str_upper w1 in
           case index user_message 2 of
             Inl e \<Rightarrow> (ctx, alert_except e)
           | Inr w2 \<Rightarrow>
               (case py_float w2 of
                  Inl e \<Rightarrow> (ctx, alert_except e)
                | Inr threshold_rate \<Rightarrow>
                    (ctx\<lparr>user_data :=
                        (user_data ctx)(''alerts'' \<mapsto> (currency_pair, threshold_rate))\<rparr>,
                     AlertSet currency_pair threshold_rate))))"

section \<open>The buttons\<close>

text \<open>\<open>rates[k]\<close>: a missing key raises \<open>KeyError\<close>.\<close>

definition subscript :: "snapshot \<Rightarrow> string \<Rightarrow> pyexc + pyval" where
  "subscript d k = (case map_of d k of None \<Rightarrow> Inl KeyError | Some v \<Rightarrow> Inr v)"

definition format_rate :: "snapshot \<Rightarrow> string \<Rightarrow> pyexc + pynum" where
  "format_rate rates k =
     (case subscript rates k of Inl e \<Rightarrow> Inl e | Inr v \<Rightarrow> format_2f v)"

definition rates_message :: "snapshot \<Rightarrow> reply" where
  "rates_message rates =
     (case format_rate rates ''USD/NGN'' of
        Inl e \<Rightarrow> Unhandled e
      | Inr usd \<Rightarrow>
         (case format_rate rates ''GBP/NGN'' of
            Inl e \<Rightarrow> Unhandled e
          | Inr gbp \<Rightarrow>
             (case format_rate rates ''EUR/NGN'' of
                Inl e \<Rightarrow> Unhandled e
              | Inr eur \<Rightarrow> RatesMessage usd gbp eur)))"

text \<open>\<open>run_repeating\<close> adds one job to the queue; it looks at no job that is there.\<close>

definition run_repeating :: "job list \<Rightarrow> nat \<Rightarrow> nat \<Rightarrow> int \<Rightarrow> alert_data \<Rightarrow> job list" where
  "run_repeating q iv fst_d uid a =
     q @ [\<lparr>interval = iv, first_delay = fst_d, user_id = uid, job_alert = a\<rparr>]"

text \<open>
  \<open>button_handler\<close> (lines 48 to 88) for the callback data \<open>query_data\<close> pressed in the
  chat \<open>chat_id\<close>; \<open>h\<close> is what the HTTP request comes back with if the handler fetches
  the rates.
\<close>

definition button_handler :: "string \<Rightarrow> int \<Rightarrow> http_result \<Rightarrow> callback_context \<Rightarrow> callback_context \<times> reply" where
  "button_handler query_data chat_id h ctx =
     (if query_data = ''get_rates'' then
        (case fetch_exchange_rates h of
           Inl e \<Rightarrow> (ctx, Unhandled e)
         | Inr None \<Rightarrow> (ctx, FetchFailed)
         | Inr (Some rates) \<Rightarrow>
             if rates \<noteq> [] then (ctx, rates_message rates) else (ctx, FetchFailed))
      else if query_data = ''set_alert'' then (ctx, AlertFormatHelp)
      else if query_data = ''schedule_alert'' then
        (case user_data ctx ''alerts'' of
           None \<Rightarrow> (ctx, NoAlertSet)
         | Some a \<Rightarrow>
             (case job_queue ctx of
                None \<Rightarrow> (ctx, JobQueueUnavailable)
              | Some q \<Rightarrow>
                  (ctx\<lparr>job_queue := Some (run_repeating q 3600 10 chat_id a)\<rparr>,
                   MonitoringStarted)))
      else (ctx, NoReply))"

section \<open>The job callback\<close>

text \<open>
  The notification \<open>send_message\<close> is called with: the chat, and the pair, the current rate
  and the threshold that fill the text. A call either delivers the message or raises.
\<close>

record notification =
  chat :: int
  pair :: string
  rate :: pynum
  threshold :: pynum

datatype delivery = Delivered | DeliveryError

text \<open>
  What one run of the callback did: the \<open>send_message\<close> calls it made, whether it called
  \<open>schedule_removal\<close>, and the exception that left it, if any.
\<close>

record outcome =
  sent :: "notification list"
  removed :: bool
  raised :: "pyexc option"

definition quiet :: outcome where
  "quiet = \<lparr>sent = [], removed = False, raised = None\<rparr>"

text \<open>
  \<open>check_alerts\<close> is lines 120 to 132, for the job \<open>j\<close>, with what the HTTP request of the
  fetch and the \<open>send_message\<close> call come back with. \<open>schedule_removal\<close> is the statement
  after the awaited \<open>send_message\<close>, so it is not reached when that call raises.
\<close>

definition check_alerts :: "job \<Rightarrow> http_result \<Rightarrow> delivery \<Rightarrow> outcome" where
  "check_alerts j h dl =
     (let uid = user_id j; (currency_pair, threshold_rate) = job_alert j in
      case fetch_exchange_rates h of
        Inl e \<Rightarrow> quiet\<lparr>raised := Some e\<rparr>
      | Inr None \<Rightarrow> quiet
      | Inr (Some rates) \<Rightarrow>
          if rates = [] then quiet
          else (let current_rate = dict_get rates currency_pair PNone in
            if \<not> truthy current_rate then quiet
            else (case as_num current_rate of
               None \<Rightarrow> quiet\<lparr>raised := Some TypeError\<rparr>
             | Some r \<Rightarrow>
                 if \<not> num_ge r threshold_rate then quiet
                 else (let msg = \<lparr>chat = uid, pair = currency_pair, rate = r,
                                   threshold = threshold_rate\<rparr> in
                   case dl of
                     DeliveryError \<Rightarrow> \<lparr>sent = [msg], removed = False, raised = Some TelegramError\<rparr>
                   | Delivered \<Rightarrow> \<lparr>sent = [msg], removed = True, raised = None\<rparr>))))"

section \<open>Running jobs\<close>

text \<open>
  One tick of a job is one run of its callback, with what the HTTP request and the
  notification call come back with at that time. The job queue runs a job at every tick
  until the callback has called \<open>schedule_removal\<close>; an exception that leaves the callback
  is logged and the job stays. \<open>run_job\<close> gives the outcome of every tick that ran.
\<close>

type_synonym tick = "http_result \<times> delivery"

fun run_job :: "job \<Rightarrow> tick list \<Rightarrow> outcome list" where
  "run_job j [] = []"
| "run_job j ((h, dl) # ts) =
     (let out = check_alerts j h dl in
      out # (if removed out then [] else run_job j ts))"

text \<open>The job at position \<open>i\<close> of the queue ticks; it leaves the queue if it was removed.\<close>

definition tick_job :: "nat \<Rightarrow> tick \<Rightarrow> callback_context \<Rightarrow> callback_context \<times> outcome" where
  "tick_job i t ctx =
     (case job_queue ctx of
        None \<Rightarrow> (ctx, quiet)
      | Some q \<Rightarrow>
          if i < length q then
            (let out = check_alerts (q ! i) (fst t) (snd t) in
             (if removed out then ctx\<lparr>job_queue := Some (take i q @ drop (Suc i) q)\<rparr> else ctx,
              out))
          else (ctx, quiet))"

section \<open>Notions the properties are stated with\<close>

text \<open>
  The rate a tick's snapshot holds for a pair: none when the fetch returned no snapshot
  or raised, and none when the pair is not a key of the snapshot.
\<close>

definition snapshot_rate :: "tick \<Rightarrow> string \<Rightarrow> pynum option" where
  "snapshot_rate t p =
     (case fetch_exchange_rates (fst t) of
        Inr (Some rates) \<Rightarrow> (case map_of rates p of Some v \<Rightarrow> as_num v | None \<Rightarrow> None)
      | _ \<Rightarrow> None)"

text \<open>
  The trigger condition in the specification's words: the snapshot holds the alert's pair
  with a rate that is at least the threshold.
\<close>

definition spec_trigger :: "job \<Rightarrow> tick \<Rightarrow> bool" where
  "spec_trigger j t =
     (case snapshot_rate t (fst (job_alert j)) of
        Some r \<Rightarrow> num_ge r (snd (job_alert j))
      | None \<Rightarrow> False)"

text \<open>The condition with the truth test of \<open>current_rate\<close> that the callback makes first.\<close>

definition trigger :: "job \<Rightarrow> tick \<Rightarrow> bool" where
  "trigger j t =
     (case snapshot_rate t (fst (job_alert j)) of
        Some r \<Rightarrow> num_truthy r \<and> num_ge r (snd (job_alert j))
      | None \<Rightarrow> False)"

text \<open>The position of the first element with a property, counted from 0.\<close>

fun first_index :: "('a \<Rightarrow> bool) \<Rightarrow> 'a list \<Rightarrow> nat option" where
  "first_index P [] = None"
| "first_index P (x # xs) = (if P x then Some 0 else map_option Suc (first_index P xs))"

text \<open>
  A tick sends when the callback calls \<open>send_message\<close>. Over a run, \<open>attempts\<close> are all the
  calls and \<open>completed\<close> are the calls that returned without an error.
\<close>

definition sends :: "outcome \<Rightarrow> bool" where
  "sends out = (sent out \<noteq> [])"

definition attempts :: "outcome list \<Rightarrow> notification list" where
  "attempts outs = concat (map sent outs)"

definition completed :: "outcome list \<Rightarrow> notification list" where
  "completed outs = concat (map sent (filter (\<lambda>out. raised out = None) outs))"

definition all_delivered :: "tick list \<Rightarrow> bool" where
  "all_delivered ts = list_all (\<lambda>t. snd t = Delivered) ts"

text \<open>
  The contract of the rate source in the specification's words: a failure indicator, or a
  snapshot with the three pairs, each with a positive float; never an exception.
\<close>

definition positive_float :: "pyval \<Rightarrow> bool" where
  "positive_float v = (case v of PNum (Fin q) \<Rightarrow> 0 < q | PNum PosInf \<Rightarrow> True | _ \<Rightarrow> False)"

definition pairs :: "string list" where
  "pairs = [''USD/NGN'', ''GBP/NGN'', ''EUR/NGN'']"

definition spec_fetch_contract :: "http_result \<Rightarrow> bool" where
  "spec_fetch_contract h =
     (case fetch_exchange_rates h of
        Inl e \<Rightarrow> False
      | Inr None \<Rightarrow> True
      | Inr (Some rates) \<Rightarrow>
          map fst rates = pairs \<and> list_all (\<lambda>kv. positive_float (snd kv)) rates)"

text \<open>The request came back with no usable response.\<close>

definition request_failed :: "http_result \<Rightarrow> bool" where
  "request_failed h =
     (case h of
        RequestFailed \<Rightarrow> True
      | Response status b \<Rightarrow> raise_for_status status \<or> b = NotJson)"

section \<open>Example data\<close>

text \<open>
  A chat with nothing set and an empty job queue; a provider response with the given NGN
  rate; a job of chat 7 for USD/NGN with the given threshold.
\<close>

definition ctx0 :: callback_context where
  "ctx0 = \<lparr>user_data = Map.empty, job_queue = Some []\<rparr>"

definition provider_response :: "rat \<Rightarrow> http_result" where
  "provider_response ngn =
     Response 200 (Json (PDict [(''base'', PStr ''USD''),
       (''rates'', PDict [(''EUR'', PNum (Fin (9 / 10))), (''GBP'', PNum (Fin (4 / 5))),
                          (''NGN'', PNum (Fin ngn))])]))"

definition usd_job :: "rat \<Rightarrow> job" where
  "usd_job t = \<lparr>interval = 3600, first_delay = 10, user_id = 7,
                job_alert = (''USD/NGN'', Fin t)\<rparr>"

text \<open>
  The chat 7 after \<open>/alert USD/NGN 850\<close> (\<open>pending_ctx\<close>), after a press of the
  monitoring button that follows (\<open>armed_ctx\<close>), and after \<open>/alert USD/NGN 900\<close> and a
  second press of the button (\<open>replaced_ctx\<close>).
\<close>

definition pending_ctx :: callback_context where
  "pending_ctx = fst (alert ''/alert USD/NGN 850'' ctx0)"

definition replaced_ctx :: callback_context where
  "replaced_ctx =
     fst (button_handler ''schedule_alert'' 7 RequestFailed
       (fst (alert ''/alert USD/NGN 900''
         (fst (button_handler ''schedule_alert'' 7 RequestFailed pending_ctx)))))"

definition armed_ctx :: callback_context where
  "armed_ctx = \<lparr>user_data = [''alerts'' \<mapsto> (''USD/NGN'', Fin 850)],
                job_queue = Some [usd_job 850]\<rparr>"

section \<open>Facts about the string operations and float\<close>

lemma of_char_upper:
  assumes "97 \<le> (of_char c :: nat)" "(of_char c :: nat) \<le> 122"
  shows "(of_char (upper_char c) :: nat) = of_char c - 32"
proof -
  have "((of_char c :: nat) - 32) mod 256 = of_char c - 32"
    using assms by simp
  with assms show ?thesis by (simp add: upper_char_def Let_def)
qed

lemma upper_char_other:
  "\<not> (97 \<le> (of_char c :: nat) \<and> (of_char c :: nat) \<le> 122) \<Longrightarrow> upper_char c = c"
  by (auto simp: upper_char_def Let_def)

lemma lower_char_other:
  "\<not> (65 \<le> (of_char c :: nat) \<and> (of_char c :: nat) \<le> 90) \<Longrightarrow> lower_char c = c"
  by (auto simp: lower_char_def Let_def)

lemma upper_char_idem: "upper_char (upper_char c) = upper_char c"
proof (cases "97 \<le> (of_char c :: nat) \<and> (of_char c :: nat) \<le> 122")
  case True
  then have "(of_char (upper_char c) :: nat) = of_char c - 32"
    by (simp add: of_char_upper)
  with True have "\<not> (97 \<le> (of_char (upper_char c) :: nat))" by linarith
  then show ?thesis by (simp add: upper_char_other)
next
  case False
  then show ?thesis by (simp add: upper_char_other)
qed

lemma lower_upper_char: "lower_char (upper_char c) = lower_char c"
proof (cases "97 \<le> (of_char c :: nat) \<and> (of_char c :: nat) \<le> 122")
  case True
  then have u: "(of_char (upper_char c) :: nat) = of_char c - 32"
    by (simp add: of_char_upper)
  have inv: "char_of ((of_char c :: nat) - 32 + 32) = c" using True by simp
  have "65 \<le> (of_char c :: nat) - 32 \<and> (of_char c :: nat) - 32 \<le> 90"
    using True by linarith
  then have "lower_char (upper_char c) = char_of ((of_char c :: nat) - 32 + 32)"
    unfolding lower_char_def [of "upper_char c"] u by (simp add: Let_def)
  moreover have "\<not> (65 \<le> (of_char c :: nat) \<and> (of_char c :: nat) \<le> 90)"
    using True by linarith
  ultimately show ?thesis using inv by (simp add: lower_char_other)
next
  case False
  then show ?thesis by (simp add: upper_char_other)
qed

lemma str_upper_idem: "str_upper (str_upper s) = str_upper s"
  by (simp add: str_upper_def upper_char_idem)

lemma str_lower_upper: "str_lower (str_upper s) = str_lower s"
  by (simp add: str_upper_def str_lower_def lower_upper_char)

lemma py_float_raises: "py_float w = Inl e \<Longrightarrow> e = ValueError"
  by (auto simp: py_float_def Let_def split: prod.splits if_splits option.splits)

lemma split_alert_lower: "str_split ''/alert usd/ngn 850'' = [''/alert'', ''usd/ngn'', ''850'']"
  by code_simp

lemma split_alert_850: "str_split ''/alert USD/NGN 850'' = [''/alert'', ''USD/NGN'', ''850'']"
  by code_simp

lemma split_alert_900: "str_split ''/alert USD/NGN 900'' = [''/alert'', ''USD/NGN'', ''900'']"
  by code_simp

lemma split_alert_neg: "str_split ''/alert USD/NGN -5'' = [''/alert'', ''USD/NGN'', ''-5'']"
  by code_simp

lemma split_alert_btc: "str_split ''/alert btc/usd 1'' = [''/alert'', ''btc/usd'', ''1'']"
  by code_simp

lemma split_alert_short: "str_split ''/alert USD/NGN'' = [''/alert'', ''USD/NGN'']"
  by code_simp

lemma float_850: "py_float ''850'' = Inr (Fin 850)"
  by code_simp

lemma float_900: "py_float ''900'' = Inr (Fin 900)"
  by code_simp

lemma float_neg: "py_float ''-5'' = Inr (Fin (- 5))"
  by code_simp

lemma float_one: "py_float ''1'' = Inr (Fin 1)"
  by code_simp

lemma upper_usd_ngn: "str_upper ''usd/ngn'' = ''USD/NGN''"
  by code_simp

lemma upper_USD_NGN: "str_upper ''USD/NGN'' = ''USD/NGN''"
  by code_simp

lemma upper_btc_usd: "str_upper ''btc/usd'' = ''BTC/USD''"
  by code_simp

section \<open>The /alert command: what is stored and what is refused\<close>

lemma alert_Usage:
  "length (str_split msg) < 3 \<or> (\<exists>e. py_float (str_split msg ! 2) = Inl e) \<Longrightarrow>
   alert msg ctx = (ctx, Usage)"
  by (auto simp: alert_def index_def alert_except_def Let_def dest: py_float_raises
      split: sum.splits)

lemma alert_AlertSet:
  "2 < length (str_split msg) \<Longrightarrow> py_float (str_split msg ! 2) = Inr t \<Longrightarrow>
   alert msg ctx =
     (ctx\<lparr>user_data := (user_data ctx)(''alerts'' \<mapsto> (str_upper (str_split msg ! 1), t))\<rparr>,
      AlertSet (str_upper (str_split msg ! 1)) t)"
  by (simp add: alert_def index_def Let_def)

lemma alert_cases:
  "(alert msg ctx = (ctx, Usage) \<and>
      (length (str_split msg) < 3 \<or> (\<exists>e. py_float (str_split msg ! 2) = Inl e))) \<or>
   (\<exists>t. 2 < length (str_split msg) \<and> py_float (str_split msg ! 2) = Inr t \<and>
      alert msg ctx =
        (ctx\<lparr>user_data := (user_data ctx)(''alerts'' \<mapsto> (str_upper (str_split msg ! 1), t))\<rparr>,
         AlertSet (str_upper (str_split msg ! 1)) t))"
proof (cases "length (str_split msg) < 3")
  case True
  then show ?thesis using alert_Usage [of msg ctx] by simp
next
  case False
  then have len: "2 < length (str_split msg)" by simp
  show ?thesis
  proof (cases "py_float (str_split msg ! 2)")
    case (Inl e)
    then show ?thesis using alert_Usage [of msg ctx] by auto
  next
    case (Inr t)
    then show ?thesis using alert_AlertSet [OF len Inr, of ctx] len by auto
  qed
qed

lemma alert_job_queue: "job_queue (fst (alert msg ctx)) = job_queue ctx"
  using alert_cases [of msg ctx] by auto

text \<open>
  C9. Right after an \<open>/alert\<close> command that succeeded, the alert stored for the user is
  the pair and the threshold the answer reports; the pair is the second word of the
  message in upper case (it is left as it is by another upper-casing and equals the word
  up to case), and the threshold is the float the third word parses to.
\<close>

theorem alert_round_trip:
  assumes "alert msg ctx = (ctx', AlertSet p t)"
  shows "user_data ctx' ''alerts'' = Some (p, t) \<and>
         2 < length (str_split msg) \<and>
         p = str_upper (str_split msg ! 1) \<and>
         str_upper p = p \<and>
         str_lower p = str_lower (str_split msg ! 1) \<and>
         py_float (str_split msg ! 2) = Inr t"
  using assms alert_cases [of msg ctx]
  by (auto simp: str_upper_idem str_lower_upper)

theorem alert_round_trip_witness:
  "alert ''/alert usd/ngn 850'' ctx0 =
     (ctx0\<lparr>user_data := (user_data ctx0)(''alerts'' \<mapsto> (''USD/NGN'', Fin 850))\<rparr>,
      AlertSet ''USD/NGN'' (Fin 850)) \<and>
   user_data (fst (alert ''/alert usd/ngn 850'' ctx0)) ''alerts'' = Some (''USD/NGN'', Fin 850) \<and>
   py_float (str_split ''/alert usd/ngn 850'' ! 2) = Inr (Fin 850)"
proof -
  have h: "alert ''/alert usd/ngn 850'' ctx0 =
     (ctx0\<lparr>user_data := (user_data ctx0)(''alerts'' \<mapsto> (''USD/NGN'', Fin 850))\<rparr>,
      AlertSet ''USD/NGN'' (Fin 850))"
    using alert_AlertSet [of "''/alert usd/ngn 850''" "Fin 850" ctx0]
    by (simp add: split_alert_lower float_850 upper_usd_ngn)
  from alert_round_trip [OF h] h show ?thesis by simp
qed

text \<open>
  C5, as the code has it. The command is refused, with the usage msg and the user's data
  left as it was, exactly when the message has fewer than three words or its third word
  is not a float literal; in every other case the alert is stored, whatever the sign of
  the threshold.
\<close>

theorem alert_refused_iff:
  "(snd (alert msg ctx) = Usage) =
     (length (str_split msg) < 3 \<or> py_float (str_split msg ! 2) = Inl ValueError) \<and>
   (if snd (alert msg ctx) = Usage then fst (alert msg ctx) = ctx
    else user_data (fst (alert msg ctx)) ''alerts'' \<noteq> None)"
  using alert_cases [of msg ctx] py_float_raises [of "str_split msg ! 2"]
  by auto

theorem alert_refused_iff_witness:
  "snd (alert ''/alert USD/NGN'' ctx0) = Usage \<and> fst (alert ''/alert USD/NGN'' ctx0) = ctx0 \<and>
   length (str_split ''/alert USD/NGN'') < 3"
  using alert_refused_iff [of "''/alert USD/NGN''" ctx0]
  by (simp add: split_alert_short)

text \<open>
  The claim of C5 fails for the message \<open>/alert USD/NGN -5\<close>: the command is not refused
  and the user, who had no alert, has the alert with the threshold -5 afterwards.
\<close>

theorem alert_negative_threshold_accepted:
  "snd (alert ''/alert USD/NGN -5'' ctx0) = AlertSet ''USD/NGN'' (Fin (- 5)) \<and>
   user_data ctx0 ''alerts'' = None \<and>
   user_data (fst (alert ''/alert USD/NGN -5'' ctx0)) ''alerts'' = Some (''USD/NGN'', Fin (- 5))"
  using alert_AlertSet [of "''/alert USD/NGN -5''" "Fin (- 5)" ctx0]
  by (simp add: split_alert_neg float_neg upper_USD_NGN ctx0_def)

section \<open>One run of the callback\<close>

lemma truthy_as_num: "as_num v = Some r \<Longrightarrow> truthy v = num_truthy r"
  by (cases v) (auto split: if_splits)

lemma fetch_snapshot_nonempty: "fetch_exchange_rates h = Inr (Some rates) \<Longrightarrow> rates \<noteq> []"
  by (auto simp: fetch_exchange_rates_def Let_def
      split: http_result.splits body.splits pyval.splits sum.splits if_splits)

lemma check_alerts_trigger:
  "trigger j (h, dl) \<Longrightarrow>
   \<exists>r. snapshot_rate (h, dl) (fst (job_alert j)) = Some r \<and>
     check_alerts j h dl =
       \<lparr>sent = [\<lparr>chat = user_id j, pair = fst (job_alert j), rate = r,
                  threshold = snd (job_alert j)\<rparr>],
        removed = (dl = Delivered),
        raised = (if dl = Delivered then None else Some TelegramError)\<rparr>"
  by (auto simp: trigger_def snapshot_rate_def check_alerts_def dict_get_def Let_def truthy_as_num
      dest: fetch_snapshot_nonempty
      split: sum.splits option.splits prod.splits delivery.splits)

lemma check_alerts_no_trigger:
  "\<not> trigger j (h, dl) \<Longrightarrow> sent (check_alerts j h dl) = [] \<and> \<not> removed (check_alerts j h dl)"
  by (auto simp: trigger_def snapshot_rate_def check_alerts_def dict_get_def Let_def truthy_as_num
      quiet_def
      split: sum.splits option.splits prod.splits delivery.splits)

lemma sends_iff_trigger: "sends (check_alerts j h dl) = trigger j (h, dl)"
  using check_alerts_trigger [of j h dl] check_alerts_no_trigger [of j h dl]
  by (auto simp: sends_def)

section \<open>When a job sends\<close>

lemma first_send_trigger:
  "first_index sends (run_job j ts) = first_index (trigger j) ts"
proof (induction ts)
  case Nil
  show ?case by simp
next
  case (Cons t ts)
  obtain h dl where t: "t = (h, dl)" by (cases t)
  show ?case
  proof (cases "trigger j (h, dl)")
    case True
    then show ?thesis using t by (simp add: Let_def sends_iff_trigger)
  next
    case False
    then have "\<not> removed (check_alerts j h dl)" by (simp add: check_alerts_no_trigger)
    with False Cons.IH t show ?thesis by (simp add: Let_def sends_iff_trigger)
  qed
qed

lemma zero_not_ge: "\<not> num_ge (Fin 0) T \<Longrightarrow> num_ge r T \<Longrightarrow> num_truthy r"
  by (cases r; cases T) auto

lemma trigger_positive_threshold:
  "\<not> num_ge (Fin 0) (snd (job_alert j)) \<Longrightarrow> trigger j = spec_trigger j"
  by (auto simp: trigger_def spec_trigger_def fun_eq_iff dest: zero_not_ge split: option.splits)

text \<open>
  C1, as the code has it. Over any sequence of ticks, the first tick at which the job
  calls \<open>send_message\<close> is the first tick whose snapshot holds the alert's pair with a rate
  that is not zero and is at least the threshold: there is no call at an earlier tick,
  and there is none at all when no tick is such a tick. For a threshold that 0 does not
  reach, this is the first tick whose snapshot holds the pair with a rate that is at
  least the threshold.
\<close>

theorem first_send_is_first_trigger:
  "first_index sends (run_job j ts) = first_index (trigger j) ts \<and>
   (\<not> num_ge (Fin 0) (snd (job_alert j)) \<longrightarrow>
      first_index sends (run_job j ts) = first_index (spec_trigger j) ts)"
  using first_send_trigger [of j ts] trigger_positive_threshold [of j] by simp

theorem first_send_is_first_trigger_witness:
  "\<not> num_ge (Fin 0) (snd (job_alert (usd_job 850))) \<and>
   first_index sends
     (run_job (usd_job 850)
        [(provider_response 820, Delivered), (provider_response 840, Delivered),
         (provider_response 850, Delivered)]) = Some 2 \<and>
   first_index (spec_trigger (usd_job 850))
        [(provider_response 820, Delivered), (provider_response 840, Delivered),
         (provider_response 850, Delivered)] = Some 2"
proof -
  have p: "\<not> num_ge (Fin 0) (snd (job_alert (usd_job 850)))"
    by (simp add: usd_job_def)
  have f: "first_index (spec_trigger (usd_job 850))
          [(provider_response 820, Delivered), (provider_response 840, Delivered),
           (provider_response 850, Delivered)] = Some 2"
    by code_simp
  have e: "first_index sends
     (run_job (usd_job 850)
        [(provider_response 820, Delivered), (provider_response 840, Delivered),
         (provider_response 850, Delivered)]) =
     first_index (spec_trigger (usd_job 850))
        [(provider_response 820, Delivered), (provider_response 840, Delivered),
         (provider_response 850, Delivered)]"
    using first_send_is_first_trigger [of "usd_job 850"
        "[(provider_response 820, Delivered), (provider_response 840, Delivered),
          (provider_response 850, Delivered)]"] p
    by blast
  from e f have g: "first_index sends
     (run_job (usd_job 850)
        [(provider_response 820, Delivered), (provider_response 840, Delivered),
         (provider_response 850, Delivered)]) = Some 2"
    by (rule trans)
  from p g f show ?thesis by blast
qed

text \<open>
  The claim of C1 fails for the threshold 0 and the rates 0 and 5: the first snapshot holds
  the pair with a rate equal to the threshold, and the job sends at the second tick only.
\<close>

theorem zero_rate_does_not_trigger:
  "first_index (spec_trigger (usd_job 0))
     [(provider_response 0, Delivered), (provider_response 5, Delivered)] = Some 0 \<and>
   first_index sends
     (run_job (usd_job 0)
        [(provider_response 0, Delivered), (provider_response 5, Delivered)]) = Some 1"
  by code_simp

section \<open>Sending at most once, and removal\<close>

lemma sent_length: "length (sent (check_alerts j h dl)) \<le> 1"
  using check_alerts_trigger [of j h dl] check_alerts_no_trigger [of j h dl]
  by (cases "trigger j (h, dl)") auto

lemma removed_iff: "removed (check_alerts j h dl) = (trigger j (h, dl) \<and> dl = Delivered)"
  using check_alerts_trigger [of j h dl] check_alerts_no_trigger [of j h dl]
  by (cases "trigger j (h, dl)") auto

lemma raised_delivery:
  "sent (check_alerts j h dl) \<noteq> [] \<Longrightarrow> (raised (check_alerts j h dl) = None) = (dl = Delivered)"
  using check_alerts_trigger [of j h dl] check_alerts_no_trigger [of j h dl]
  by (cases "trigger j (h, dl)") (auto split: if_splits)

lemma completed_Cons:
  "completed (out # outs) = (if raised out = None then sent out else []) @ completed outs"
  by (simp add: completed_def)

lemma attempts_Cons: "attempts (out # outs) = sent out @ attempts outs"
  by (simp add: attempts_def)

lemma completed_run_job: "length (completed (run_job j ts)) \<le> 1"
proof (induction ts)
  case Nil
  show ?case by (simp add: completed_def)
next
  case (Cons t ts)
  obtain h dl where t: "t = (h, dl)" by (cases t)
  let ?out = "check_alerts j h dl"
  show ?case
  proof (cases "removed ?out")
    case True
    then have "run_job j (t # ts) = [?out]" using t by (simp add: Let_def)
    then show ?thesis using sent_length [of j h dl] by (simp add: completed_def)
  next
    case False
    then have run: "run_job j (t # ts) = ?out # run_job j ts" using t by (simp add: Let_def)
    have "raised ?out = None \<Longrightarrow> sent ?out = []"
      using False raised_delivery [of j h dl] removed_iff [of j h dl] sends_iff_trigger [of j h dl]
      by (auto simp: sends_def)
    then show ?thesis using Cons.IH run by (auto simp: completed_Cons)
  qed
qed

lemma attempts_run_job: "all_delivered ts \<Longrightarrow> length (attempts (run_job j ts)) \<le> 1"
proof (induction ts)
  case Nil
  show ?case by (simp add: attempts_def)
next
  case (Cons t ts)
  obtain h dl where t: "t = (h, dl)" by (cases t)
  have dl: "dl = Delivered" using Cons.prems t by (simp add: all_delivered_def)
  have rest: "all_delivered ts" using Cons.prems by (simp add: all_delivered_def)
  let ?out = "check_alerts j h dl"
  show ?case
  proof (cases "removed ?out")
    case True
    then have "run_job j (t # ts) = [?out]" using t by (simp add: Let_def)
    then show ?thesis using sent_length [of j h dl] by (simp add: attempts_def)
  next
    case False
    then have run: "run_job j (t # ts) = ?out # run_job j ts" using t by (simp add: Let_def)
    have "sent ?out = []"
      using False dl removed_iff [of j h dl] check_alerts_no_trigger [of j h dl] by auto
    then show ?thesis using Cons.IH [OF rest] run by (simp add: attempts_Cons)
  qed
qed

text \<open>
  C2, as the code has it. Over any sequence of ticks at most one \<open>send_message\<close> call of
  a job returns without an error, and when no call fails the job makes at most one call
  in its whole lifetime, however many later ticks also satisfy the threshold.
\<close>

theorem at_most_one_completed_send:
  "length (completed (run_job j ts)) \<le> 1 \<and>
   (all_delivered ts \<longrightarrow> length (attempts (run_job j ts)) \<le> 1)"
  using completed_run_job [of j ts] attempts_run_job [of ts j] by simp

theorem at_most_one_completed_send_witness:
  "all_delivered [(provider_response 860, Delivered), (provider_response 870, Delivered)] \<and>
   attempts (run_job (usd_job 850)
       [(provider_response 860, Delivered), (provider_response 870, Delivered)]) =
     [\<lparr>chat = 7, pair = ''USD/NGN'', rate = Fin 860, threshold = Fin 850\<rparr>] \<and>
   length (attempts (run_job (usd_job 850)
       [(provider_response 860, Delivered), (provider_response 870, Delivered)])) \<le> 1"
proof -
  have a: "all_delivered [(provider_response 860, Delivered), (provider_response 870, Delivered)]"
    by code_simp
  have b: "attempts (run_job (usd_job 850)
       [(provider_response 860, Delivered), (provider_response 870, Delivered)]) =
     [\<lparr>chat = 7, pair = ''USD/NGN'', rate = Fin 860, threshold = Fin 850\<rparr>]"
    by code_simp
  show ?thesis
    using at_most_one_completed_send [of "usd_job 850"
        "[(provider_response 860, Delivered), (provider_response 870, Delivered)]"] a b
    by simp
qed

text \<open>
  The claim of C2 fails when the first call raises: with the threshold 850 and the rates
  860 and 870, the job calls \<open>send_message\<close> at both ticks.
\<close>

theorem failed_delivery_sends_again:
  "attempts (run_job (usd_job 850)
       [(provider_response 860, DeliveryError), (provider_response 870, Delivered)]) =
     [\<lparr>chat = 7, pair = ''USD/NGN'', rate = Fin 860, threshold = Fin 850\<rparr>,
      \<lparr>chat = 7, pair = ''USD/NGN'', rate = Fin 870, threshold = Fin 850\<rparr>]"
  by code_simp

lemma tick_job_eq:
  "job_queue ctx = Some q \<Longrightarrow> i < length q \<Longrightarrow>
   tick_job i t ctx =
     (if removed (check_alerts (q ! i) (fst t) (snd t))
      then ctx\<lparr>job_queue := Some (take i q @ drop (Suc i) q)\<rparr> else ctx,
      check_alerts (q ! i) (fst t) (snd t))"
  by (simp add: tick_job_def Let_def)

text \<open>
  C3, as the code has it. At a tick of a scheduled job where the trigger condition holds,
  the callback calls \<open>send_message\<close> once; the job leaves the queue exactly when that call
  delivers. When the call raises, the error leaves the callback and the queue is as it
  was, with the job in it.
\<close>

theorem removal_needs_delivery:
  assumes "job_queue ctx = Some q" and "i < length q" and "trigger (q ! i) (h, dl)"
  shows "job_queue (fst (tick_job i (h, dl) ctx)) =
           Some (if dl = Delivered then take i q @ drop (Suc i) q else q) \<and>
         raised (snd (tick_job i (h, dl) ctx)) =
           (if dl = Delivered then None else Some TelegramError) \<and>
         length (sent (snd (tick_job i (h, dl) ctx))) = 1"
  using assms check_alerts_trigger [OF assms(3)]
  by (auto simp: tick_job_eq)

theorem removal_needs_delivery_witness:
  "trigger (usd_job 850) (provider_response 860, Delivered) \<and>
   job_queue (fst (tick_job 0 (provider_response 860, Delivered) armed_ctx)) = Some [] \<and>
   raised (snd (tick_job 0 (provider_response 860, Delivered) armed_ctx)) = None"
proof -
  have q: "job_queue armed_ctx = Some [usd_job 850]" by (simp add: armed_ctx_def)
  have tr: "trigger ([usd_job 850] ! 0) (provider_response 860, Delivered)" by code_simp
  show ?thesis
    using removal_needs_delivery [OF q _ tr] tr by simp
qed

text \<open>
  The claim of C3 fails at a tick with the rate 860 for the threshold 850 where the
  delivery raises: the job is still in the queue afterwards.
\<close>

theorem failed_delivery_keeps_job:
  "spec_trigger (usd_job 850) (provider_response 860, DeliveryError) \<and>
   sent (snd (tick_job 0 (provider_response 860, DeliveryError) armed_ctx)) =
     [\<lparr>chat = 7, pair = ''USD/NGN'', rate = Fin 860, threshold = Fin 850\<rparr>] \<and>
   raised (snd (tick_job 0 (provider_response 860, DeliveryError) armed_ctx)) = Some TelegramError \<and>
   job_queue (fst (tick_job 0 (provider_response 860, DeliveryError) armed_ctx)) =
     Some [usd_job 850]"
proof -
  have q: "job_queue armed_ctx = Some [usd_job 850]" by (simp add: armed_ctx_def)
  have c: "check_alerts (usd_job 850) (provider_response 860) DeliveryError =
     \<lparr>sent = [\<lparr>chat = 7, pair = ''USD/NGN'', rate = Fin 860, threshold = Fin 850\<rparr>],
      removed = False, raised = Some TelegramError\<rparr>"
    by code_simp
  have s: "spec_trigger (usd_job 850) (provider_response 860, DeliveryError)" by code_simp
  show ?thesis using s c q by (simp add: tick_job_eq [OF q])
qed

section \<open>The rate source, failed fetches and unlisted pairs\<close>

lemma fetch_None_iff: "(fetch_exchange_rates h = Inr None) = request_failed h"
  by (auto simp: fetch_exchange_rates_def request_failed_def Let_def
      split: http_result.splits body.splits pyval.splits sum.splits if_splits)

lemma truediv_numeric: "truediv a b = Inr v \<Longrightarrow> as_num a \<noteq> None \<and> as_num v \<noteq> None"
  by (auto simp: truediv_def split: option.splits sum.splits)

lemma fetch_snapshot_form:
  assumes "fetch_exchange_rates h = Inr (Some rates)"
  shows "\<exists>ngn g e. rates = [(''USD/NGN'', ngn), (''GBP/NGN'', g), (''EUR/NGN'', e)] \<and>
           as_num ngn \<noteq> None \<and> as_num g \<noteq> None \<and> as_num e \<noteq> None"
  using assms
  by (auto simp: fetch_exchange_rates_def Let_def dest: truediv_numeric
      split: http_result.splits body.splits pyval.splits sum.splits if_splits)

text \<open>
  C8, as the code has it. The fetch returns the failure indicator \<open>None\<close> exactly when the
  request raised, the status is an error status or the body is not JSON. Every snapshot it
  returns has exactly the three pairs, each with a number: no returned snapshot holds the
  \<open>N/A\<close> placeholder or another non-number. The sign of the rates is not checked.
\<close>

theorem fetch_none_or_numeric_snapshot:
  "(fetch_exchange_rates h = Inr None) = request_failed h \<and>
   (\<forall>rates. fetch_exchange_rates h = Inr (Some rates) \<longrightarrow>
      map fst rates = pairs \<and> list_all (\<lambda>kv. as_num (snd kv) \<noteq> None) rates)"
proof -
  have "map fst rates = pairs \<and> list_all (\<lambda>kv. as_num (snd kv) \<noteq> None) rates"
    if "fetch_exchange_rates h = Inr (Some rates)" for rates
    using fetch_snapshot_form [OF that] by (auto simp: pairs_def)
  then show ?thesis by (simp add: fetch_None_iff)
qed

theorem fetch_none_or_numeric_snapshot_witness:
  "fetch_exchange_rates (provider_response 1500) =
     Inr (Some [(''USD/NGN'', PNum (Fin 1500)), (''GBP/NGN'', PNum (Fin 1875)),
                (''EUR/NGN'', PNum (Fin (5000 / 3)))]) \<and>
   map fst [(''USD/NGN'', PNum (Fin 1500)), (''GBP/NGN'', PNum (Fin 1875)),
            (''EUR/NGN'', PNum (Fin (5000 / 3)))] = pairs \<and>
   \<not> request_failed (provider_response 1500)"
proof -
  have f: "fetch_exchange_rates (provider_response 1500) =
     Inr (Some [(''USD/NGN'', PNum (Fin 1500)), (''GBP/NGN'', PNum (Fin 1875)),
                (''EUR/NGN'', PNum (Fin (5000 / 3)))])"
    by code_simp
  show ?thesis
    using fetch_none_or_numeric_snapshot [of "provider_response 1500"] f by simp
qed

text \<open>
  The claim of C8 fails for a response whose NGN rate is 0: the snapshot that is returned
  holds rates that are not positive.
\<close>

theorem zero_rate_snapshot:
  "\<not> spec_fetch_contract (Response 200 (Json (PDict [(''rates'', PDict [(''NGN'', PNum (Fin 0))])])))"
  by code_simp

text \<open>
  A response without an NGN rate makes the division of the placeholder raise: the
  exception is not a \<open>RequestException\<close> and leaves the function.
\<close>

lemma fetch_missing_rate_raises:
  "fetch_exchange_rates (Response 200 (Json (PDict []))) = Inl TypeError"
  by code_simp

lemma check_alerts_fetch_raises:
  "fetch_exchange_rates h = Inl e \<Longrightarrow> check_alerts j h dl = quiet\<lparr>raised := Some e\<rparr>"
  by (simp add: check_alerts_def split: prod.splits)

lemma check_alerts_fetch_None:
  "fetch_exchange_rates h = Inr None \<Longrightarrow> check_alerts j h dl = quiet"
  by (simp add: check_alerts_def split: prod.splits)

text \<open>
  C7. When the fetch fails at a tick, the callback sends nothing, does not remove the job
  and raises nothing; the context, with the user's data and the job queue, is as it was;
  and the later ticks of the job run as they would have without the failed one, so a
  later tick that meets the threshold sends.
\<close>

theorem fetch_failure_is_no_trigger:
  assumes "request_failed (fst t)"
  shows "check_alerts j (fst t) (snd t) = quiet \<and>
         sent quiet = [] \<and> \<not> removed quiet \<and> raised quiet = None \<and>
         run_job j (t # ts) = quiet # run_job j ts \<and>
         tick_job i t ctx = (ctx, quiet)"
proof -
  have c: "check_alerts j' (fst t) (snd t) = quiet" for j'
    using assms by (simp add: check_alerts_fetch_None fetch_None_iff)
  have r: "run_job j (t # ts) = quiet # run_job j ts"
    using c [of j] by (cases t) (simp add: Let_def quiet_def)
  have k: "tick_job i t ctx = (ctx, quiet)"
    by (simp add: tick_job_def Let_def c quiet_def split: option.splits)
  show ?thesis using c [of j] r k by (simp add: quiet_def)
qed

theorem fetch_failure_is_no_trigger_witness:
  "request_failed RequestFailed \<and>
   run_job (usd_job 850) [(RequestFailed, Delivered), (provider_response 900, Delivered)] =
     [quiet,
      \<lparr>sent = [\<lparr>chat = 7, pair = ''USD/NGN'', rate = Fin 900, threshold = Fin 850\<rparr>],
       removed = True, raised = None\<rparr>] \<and>
   tick_job 0 (RequestFailed, Delivered) armed_ctx = (armed_ctx, quiet)"
proof -
  have f: "request_failed (fst (RequestFailed, Delivered))" by (simp add: request_failed_def)
  have n: "run_job (usd_job 850) [(provider_response 900, Delivered)] =
     [\<lparr>sent = [\<lparr>chat = 7, pair = ''USD/NGN'', rate = Fin 900, threshold = Fin 850\<rparr>],
       removed = True, raised = None\<rparr>]"
    by code_simp
  show ?thesis
    using fetch_failure_is_no_trigger [OF f, of "usd_job 850" "[(provider_response 900, Delivered)]" 0 armed_ctx] f n
    by simp
qed

lemma unlisted_pair_no_trigger: "p \<notin> set pairs \<Longrightarrow> fst (job_alert j) = p \<Longrightarrow> \<not> trigger j t"
  by (auto simp: trigger_def snapshot_rate_def pairs_def dest!: fetch_snapshot_form
      split: sum.splits option.splits)

lemma run_job_never_trigger:
  "(\<And>t. \<not> trigger j t) \<Longrightarrow>
   attempts (run_job j ts) = [] \<and> length (run_job j ts) = length ts \<and>
   list_all (\<lambda>out. \<not> removed out) (run_job j ts)"
proof (induction ts)
  case Nil
  show ?case by (simp add: attempts_def)
next
  case (Cons t ts)
  obtain h dl where t: "t = (h, dl)" by (cases t)
  have "\<not> trigger j (h, dl)" using Cons.prems by simp
  then have "sent (check_alerts j h dl) = [] \<and> \<not> removed (check_alerts j h dl)"
    by (rule check_alerts_no_trigger)
  then show ?case using Cons.IH [OF Cons.prems] t by (simp add: Let_def attempts_Cons)
qed

text \<open>
  C10. A \<open>/alert\<close> command whose pair, in upper case, is none of the three pairs of the
  snapshot is accepted like any other when its threshold parses; a job with that alert
  never calls \<open>send_message\<close> and is never removed, whatever the ticks bring.
\<close>

theorem unlisted_pair_never_fires:
  assumes "2 < length (str_split msg)"
    and "py_float (str_split msg ! 2) = Inr t"
    and "str_upper (str_split msg ! 1) \<notin> set pairs"
    and "job_alert j = (str_upper (str_split msg ! 1), t)"
  shows "alert msg ctx =
           (ctx\<lparr>user_data := (user_data ctx)(''alerts'' \<mapsto> (str_upper (str_split msg ! 1), t))\<rparr>,
            AlertSet (str_upper (str_split msg ! 1)) t) \<and>
         attempts (run_job j ts) = [] \<and>
         length (run_job j ts) = length ts \<and>
         list_all (\<lambda>out. \<not> removed out) (run_job j ts)"
proof -
  have "\<not> trigger j t'" for t'
    using assms(3,4) unlisted_pair_no_trigger [of "str_upper (str_split msg ! 1)" j t'] by simp
  then show ?thesis
    using run_job_never_trigger [of j ts] alert_AlertSet [OF assms(1,2), of ctx] by simp
qed

theorem unlisted_pair_never_fires_witness:
  "alert ''/alert btc/usd 1'' ctx0 =
     (ctx0\<lparr>user_data := (user_data ctx0)(''alerts'' \<mapsto> (''BTC/USD'', Fin 1))\<rparr>,
      AlertSet ''BTC/USD'' (Fin 1)) \<and>
   attempts (run_job \<lparr>interval = 3600, first_delay = 10, user_id = 7,
                      job_alert = (''BTC/USD'', Fin 1)\<rparr>
     [(provider_response 1500, Delivered), (provider_response 1600, Delivered)]) = [] \<and>
   ''BTC/USD'' \<notin> set pairs"
proof -
  have n: "''BTC/USD'' \<notin> set pairs" by (simp add: pairs_def)
  show ?thesis
    using unlisted_pair_never_fires [of "''/alert btc/usd 1''" "Fin 1"
        "\<lparr>interval = 3600, first_delay = 10, user_id = 7, job_alert = (''BTC/USD'', Fin 1)\<rparr>"
        ctx0 "[(provider_response 1500, Delivered), (provider_response 1600, Delivered)]"] n
    by (simp add: split_alert_btc float_one upper_btc_usd)
qed

section \<open>Scheduling and replacing alerts\<close>

lemma schedule_alert_adds_job:
  "user_data ctx ''alerts'' = Some a \<Longrightarrow> job_queue ctx = Some q \<Longrightarrow>
   button_handler ''schedule_alert'' c h ctx =
     (ctx\<lparr>job_queue := Some (q @ [\<lparr>interval = 3600, first_delay = 10, user_id = c,
                                     job_alert = a\<rparr>])\<rparr>,
      MonitoringStarted)"
  by (simp add: button_handler_def run_repeating_def)

lemma schedule_alert_queue:
  "job_queue ctx = Some q \<Longrightarrow>
   \<exists>q'. job_queue (fst (button_handler ''schedule_alert'' c h ctx)) = Some (q @ q') \<and>
        user_data (fst (button_handler ''schedule_alert'' c h ctx)) = user_data ctx"
  by (auto simp: button_handler_def run_repeating_def split: option.splits)

lemma pending_ctx_eq:
  "pending_ctx = \<lparr>user_data = [''alerts'' \<mapsto> (''USD/NGN'', Fin 850)], job_queue = Some []\<rparr>"
  using alert_AlertSet [of "''/alert USD/NGN 850''" "Fin 850" ctx0]
  by (simp add: pending_ctx_def split_alert_850 float_850 upper_USD_NGN ctx0_def)

lemma pending_to_armed:
  "button_handler ''schedule_alert'' 7 h pending_ctx = (armed_ctx, MonitoringStarted)"
  using schedule_alert_adds_job [of pending_ctx "(''USD/NGN'', Fin 850)" "[]" 7 h]
  by (simp add: pending_ctx_eq armed_ctx_def usd_job_def)

lemma armed_alert_900:
  "alert ''/alert USD/NGN 900'' armed_ctx =
     (\<lparr>user_data = [''alerts'' \<mapsto> (''USD/NGN'', Fin 900)], job_queue = Some [usd_job 850]\<rparr>,
      AlertSet ''USD/NGN'' (Fin 900))"
  using alert_AlertSet [of "''/alert USD/NGN 900''" "Fin 900" armed_ctx]
  by (simp add: split_alert_900 float_900 upper_USD_NGN armed_ctx_def)

lemma replaced_ctx_eq:
  "replaced_ctx =
     \<lparr>user_data = [''alerts'' \<mapsto> (''USD/NGN'', Fin 900)],
      job_queue = Some [usd_job 850, usd_job 900]\<rparr>"
  using schedule_alert_adds_job [of "\<lparr>user_data = [''alerts'' \<mapsto> (''USD/NGN'', Fin 900)], job_queue = Some [usd_job 850]\<rparr>"
      "(''USD/NGN'', Fin 900)" "[usd_job 850]" 7 RequestFailed]
  by (simp add: replaced_ctx_def pending_to_armed armed_alert_900 usd_job_def)

text \<open>
  C6, as the code has it. The monitoring button never refuses because a job exists: when
  the user has an alert and the job queue is available, it answers that monitoring has
  started and adds one job with that alert at the end of the queue, whatever jobs are
  in the queue already; it changes nothing else.
\<close>

theorem schedule_always_adds_job:
  assumes "user_data ctx ''alerts'' = Some a" and "job_queue ctx = Some q"
  shows "snd (button_handler ''schedule_alert'' c h ctx) = MonitoringStarted \<and>
         job_queue (fst (button_handler ''schedule_alert'' c h ctx)) =
           Some (q @ [\<lparr>interval = 3600, first_delay = 10, user_id = c, job_alert = a\<rparr>]) \<and>
         user_data (fst (button_handler ''schedule_alert'' c h ctx)) = user_data ctx"
  using schedule_alert_adds_job [OF assms, of c h] by simp

theorem schedule_always_adds_job_witness:
  "user_data pending_ctx ''alerts'' = Some (''USD/NGN'', Fin 850) \<and>
   job_queue pending_ctx = Some [] \<and>
   snd (button_handler ''schedule_alert'' 7 RequestFailed pending_ctx) = MonitoringStarted \<and>
   job_queue (fst (button_handler ''schedule_alert'' 7 RequestFailed pending_ctx)) =
     Some [usd_job 850]"
proof -
  have u: "user_data pending_ctx ''alerts'' = Some (''USD/NGN'', Fin 850)"
    by (simp add: pending_ctx_eq)
  have q: "job_queue pending_ctx = Some []" by (simp add: pending_ctx_eq)
  show ?thesis
    using schedule_always_adds_job [OF u q, of 7 RequestFailed] u q by (simp add: usd_job_def)
qed

text \<open>
  The claim of C6 fails at a second press of the button: the chat has a job for USD/NGN,
  the answer is that monitoring has started, and the queue holds two jobs of that chat
  for that pair.
\<close>

theorem second_schedule_adds_second_job:
  "job_queue armed_ctx = Some [usd_job 850] \<and>
   snd (button_handler ''schedule_alert'' 7 RequestFailed armed_ctx) = MonitoringStarted \<and>
   job_queue (fst (button_handler ''schedule_alert'' 7 RequestFailed armed_ctx)) =
     Some [usd_job 850, usd_job 850]"
  using schedule_alert_adds_job [of armed_ctx "(''USD/NGN'', Fin 850)" "[usd_job 850]" 7 RequestFailed]
  by (simp add: armed_ctx_def usd_job_def)

text \<open>
  C4, as the code has it. A new \<open>/alert\<close> followed by a press of the monitoring button
  cancels no job: every job of the queue is still in the queue, at its position, and a
  tick of it runs the callback with the alert the job was created with.
\<close>

theorem replaced_alert_job_stays:
  assumes "job_queue ctx = Some q" and "i < length q"
  shows "\<exists>q'. job_queue (fst (button_handler ''schedule_alert'' c h (fst (alert msg ctx)))) =
                Some (q @ q') \<and>
              snd (tick_job i t (fst (button_handler ''schedule_alert'' c h (fst (alert msg ctx))))) =
                check_alerts (q ! i) (fst t) (snd t)"
proof -
  let ?ctx = "fst (button_handler ''schedule_alert'' c h (fst (alert msg ctx)))"
  have "job_queue (fst (alert msg ctx)) = Some q"
    using assms(1) by (simp add: alert_job_queue)
  then obtain q' where q': "job_queue ?ctx = Some (q @ q')"
    using schedule_alert_queue [of "fst (alert msg ctx)" q c h] by auto
  have "i < length (q @ q')" using assms(2) by simp
  then have "snd (tick_job i t ?ctx) = check_alerts ((q @ q') ! i) (fst t) (snd t)"
    using tick_job_eq [OF q', of i t] by simp
  then have "snd (tick_job i t ?ctx) = check_alerts (q ! i) (fst t) (snd t)"
    using assms(2) by (simp add: nth_append)
  with q' show ?thesis by blast
qed

theorem replaced_alert_job_stays_witness:
  "job_queue armed_ctx = Some [usd_job 850] \<and>
   job_queue replaced_ctx = Some [usd_job 850, usd_job 900] \<and>
   snd (tick_job 0 (provider_response 840, Delivered) replaced_ctx) =
     check_alerts (usd_job 850) (provider_response 840) Delivered"
proof -
  have q: "job_queue armed_ctx = Some [usd_job 850]" by (simp add: armed_ctx_def)
  have r: "fst (button_handler ''schedule_alert'' 7 RequestFailed
       (fst (alert ''/alert USD/NGN 900'' armed_ctx))) = replaced_ctx"
    by (simp add: replaced_ctx_def pending_to_armed)
  have jq: "job_queue replaced_ctx = Some [usd_job 850, usd_job 900]"
    by (simp add: replaced_ctx_eq)
  show ?thesis
    using replaced_alert_job_stays [OF q, of 0 7 RequestFailed "''/alert USD/NGN 900''"
        "(provider_response 840, Delivered)"] q r jq
    by simp
qed

text \<open>
  The claim of C4 fails after the alert for USD/NGN at 850 was replaced by one at 900: at
  a tick with the rate 860 the first job sends a notification with the threshold 850.
\<close>

theorem stale_threshold_notification:
  "user_data replaced_ctx ''alerts'' = Some (''USD/NGN'', Fin 900) \<and>
   sent (snd (tick_job 0 (provider_response 860, Delivered) replaced_ctx)) =
     [\<lparr>chat = 7, pair = ''USD/NGN'', rate = Fin 860, threshold = Fin 850\<rparr>]"
proof -
  have c: "check_alerts (usd_job 850) (provider_response 860) Delivered =
     \<lparr>sent = [\<lparr>chat = 7, pair = ''USD/NGN'', rate = Fin 860, threshold = Fin 850\<rparr>],
      removed = True, raised = None\<rparr>"
    by code_simp
  have q: "job_queue replaced_ctx = Some [usd_job 850, usd_job 900]"
    by (simp add: replaced_ctx_eq)
  have u: "user_data replaced_ctx ''alerts'' = Some (''USD/NGN'', Fin 900)"
    by (simp add: replaced_ctx_eq)
  have "snd (tick_job 0 (provider_response 860, Delivered) replaced_ctx) =
          check_alerts (usd_job 850) (provider_response 860) Delivered"
    using tick_job_eq [OF q, of 0 "(provider_response 860, Delivered)"] by simp
  then show ?thesis using c u by simp
qed

end
